theory Spec2Isabelle
  imports Main
begin

section \<open>The serializer Registry of faust/serializers/registry.py\<close>

text \<open>
  The Registry dispatches every encode and decode call to one of three paths: the
  stateless codec table (\<^verbatim>\<open>codecs.loads\<close>, \<^verbatim>\<open>codecs.dumps\<close>), the self-encoding of a
  model instance, or a cached asynchronous serializer built on first use. The codec
  table, the model classes, \<^verbatim>\<open>want_bytes\<close>, \<^verbatim>\<open>symbol_by_name\<close> and the asynchronous
  serializer classes live outside this file of the repository; they are the fields of
  the record \<open>env\<close> below, and every theorem holds for every such environment unless it
  says otherwise. The coroutines are run to completion one after the other: an
  \<^verbatim>\<open>await\<close> is a call.
\<close>

subsection \<open>Values\<close>

text \<open>
  \<^verbatim>\<open>CodecArg\<close> is \<^verbatim>\<open>Optional[Union[CodecT, str]]\<close>: no codec, the name of a codec, or a
  codec object (identified here by a label). \<^verbatim>\<open>isinstance(name, str)\<close> holds of the
  second alternative only.
\<close>

datatype codec_arg = NoCodec | CodecName string | CodecObj string

text \<open>
  Truth value of a codec argument, as \<^verbatim>\<open>if serializer:\<close> and \<^verbatim>\<open>a or b\<close> test it: \<^verbatim>\<open>None\<close>
  and the empty string are false; a codec object is true (it defines neither
  \<^verbatim>\<open>__bool__\<close> nor \<^verbatim>\<open>__len__\<close>).
\<close>

fun truthy :: "codec_arg \<Rightarrow> bool" where
  "truthy NoCodec = False"
| "truthy (CodecName n) = (n \<noteq> [])"
| "truthy (CodecObj c) = True"

definition py_or :: "codec_arg \<Rightarrow> codec_arg \<Rightarrow> codec_arg" where
  "py_or a b = (if truthy a then a else b)"

text \<open>
  A model class, as far as the Registry reads it: its name and
  \<^verbatim>\<open>_options.serializer\<close>. \<^verbatim>\<open>Request\<close> is opaque context data.
\<close>

record model_type =
  mt_name :: string
  mt_serializer :: codec_arg

datatype request = Request string

text \<open>
  Keys and values. \<open>PModel T d r\<close> is an instance of the model class \<open>T\<close> built by
  \<^verbatim>\<open>T(d)\<close> (\<open>r = None\<close>) or \<^verbatim>\<open>T(d, req=r)\<close>; \<^verbatim>\<open>isinstance(v, ModelT)\<close> holds of these
  values only, and \<^verbatim>\<open>v._options.serializer\<close> is \<open>mt_serializer T\<close>.
\<close>

datatype pyval =
    PNone
  | PBytes string
  | PStr string
  | PInt int
  | PDict "(pyval \<times> pyval) list"
  | PModel model_type pyval "request option"

fun is_model :: "pyval \<Rightarrow> bool" where
  "is_model (PModel T d r) = True"
| "is_model v = False"

fun options_of :: "pyval \<Rightarrow> codec_arg" where
  "options_of (PModel T d r) = mt_serializer T"
| "options_of v = NoCodec"

record message =
  msg_key :: pyval
  msg_value :: pyval

subsection \<open>Exceptions\<close>

text \<open>
  The code tells exceptions apart by class only: \<^verbatim>\<open>except KeyError\<close> and
  \<^verbatim>\<open>except Exception\<close>. \<open>KeyError c\<close> is \<^verbatim>\<open>KeyError(c)\<close>; \<open>OtherException cls msg\<close> is any
  other exception deriving from \<^verbatim>\<open>Exception\<close>; \<open>BaseOnly cls msg\<close> is an exception that
  derives from \<^verbatim>\<open>BaseException\<close> but not from \<^verbatim>\<open>Exception\<close> (\<^verbatim>\<open>KeyboardInterrupt\<close>,
  \<^verbatim>\<open>SystemExit\<close>, \<^verbatim>\<open>GeneratorExit\<close>). \<open>KeyDecodeError e\<close> stands for
  \<^verbatim>\<open>KeyDecodeError(str(e))\<close> raised while \<open>e\<close> is being handled, and likewise
  \<open>ValueDecodeError e\<close>: the description carried is that of \<open>e\<close>.
\<close>

datatype exc =
    KeyError codec_arg
  | AttributeError string
  | TypeError string
  | OtherException string string
  | BaseOnly string string
  | KeyDecodeError exc
  | ValueDecodeError exc

fun is_KeyError :: "exc \<Rightarrow> bool" where
  "is_KeyError (KeyError c) = True"
| "is_KeyError e = False"

fun is_Exception :: "exc \<Rightarrow> bool" where
  "is_Exception (BaseOnly cls msg) = False"
| "is_Exception e = True"

fun is_KeyDecodeError :: "exc \<Rightarrow> bool" where
  "is_KeyDecodeError (KeyDecodeError e) = True"
| "is_KeyDecodeError e = False"

fun is_ValueDecodeError :: "exc \<Rightarrow> bool" where
  "is_ValueDecodeError (ValueDecodeError e) = True"
| "is_ValueDecodeError e = False"

text \<open>
  \<^verbatim>\<open>except Exception as exc: raise K(str(exc))\<close> around a result: an exception deriving
  from \<^verbatim>\<open>Exception\<close> is replaced, any other passes through the handler.
\<close>

definition reraise_as :: "(exc \<Rightarrow> exc) \<Rightarrow> exc + 'a \<Rightarrow> exc + 'a" where
  "reraise_as K r =
     (case r of
        Inl e \<Rightarrow> if is_Exception e then Inl (K e) else Inl e
      | Inr v \<Rightarrow> Inr v)"

text \<open>Sequencing of two steps that may raise.\<close>

definition and_then :: "exc + 'a \<Rightarrow> ('a \<Rightarrow> exc + 'b) \<Rightarrow> exc + 'b" where
  "and_then r f = (case r of Inl e \<Rightarrow> Inl e | Inr v \<Rightarrow> f v)"

subsection \<open>The Registry and the objects it builds\<close>

text \<open>
  An asynchronous serializer instance: its identity (the reference), the class it is
  an instance of, and the Registry its constructor was given.
\<close>

record async_serializer =
  ser_id :: nat
  ser_class :: string
  ser_registry :: nat

text \<open>
  \<^verbatim>\<open>__init__\<close> sets \<^verbatim>\<open>key_serializer\<close>, \<^verbatim>\<open>value_serializer\<close> and the empty
  \<^verbatim>\<open>_override\<close> cache; \<open>rid\<close> is the identity of the Registry object itself.
\<close>

record registry =
  rid :: nat
  key_serializer :: codec_arg
  value_serializer :: codec_arg
  override :: "string \<rightharpoonup> async_serializer"

text \<open>
  The state a method runs in: the Registry, and every asynchronous serializer instance
  constructed so far, in the order of construction. A new instance gets the next free
  identity.
\<close>

record state =
  reg :: registry
  created :: "async_serializer list"

definition Registry_init :: "nat \<Rightarrow> codec_arg \<Rightarrow> codec_arg \<Rightarrow> state" where
  "Registry_init r ks vs =
     \<lparr>reg = \<lparr>rid = r, key_serializer = ks, value_serializer = vs, override = Map.empty\<rparr>,
      created = []\<rparr>"

text \<open>\<^verbatim>\<open>Registry()\<close>: the defaults of \<^verbatim>\<open>__init__\<close>.\<close>

definition Registry_default :: "nat \<Rightarrow> state" where
  "Registry_default r = Registry_init r NoCodec (CodecName ''json'')"

text \<open>The class attribute \<^verbatim>\<open>override_classes\<close>.\<close>

definition override_classes :: "string \<rightharpoonup> string" where
  "override_classes = [''avro'' \<mapsto> ''faust.serializers.avro.faust:AvroSerializer'']"

subsection \<open>The collaborators\<close>

text \<open>
  \<^item> \<open>loads\<close>, \<open>dumps\<close>: the stateless codec table of \<^verbatim>\<open>faust.serializers.codecs\<close>;
  \<^item> \<open>want_bytes\<close>: \<^verbatim>\<open>faust.utils.compat.want_bytes\<close>;
  \<^item> \<open>symbol_by_name\<close>: imports the class a symbol names;
  \<^item> \<open>construct cls r\<close>: what \<^verbatim>\<open>cls(r)\<close> raises, if anything, for the Registry \<open>r\<close>;
  \<^item> \<open>ser_loads\<close>, \<open>ser_dumps_key\<close>, \<open>ser_dumps_value\<close>: the coroutines of an
    asynchronous serializer instance;
  \<^item> \<open>model_new T d r\<close>: what the constructor of the model class \<open>T\<close> raises, if
    anything, for the payload \<open>d\<close> and the request \<open>r\<close>;
  \<^item> \<open>model_dumps\<close>: the method \<^verbatim>\<open>dumps()\<close> of a model instance.
  None of them writes to the \<^verbatim>\<open>_override\<close> cache.
\<close>

record env =
  loads :: "codec_arg \<Rightarrow> pyval \<Rightarrow> exc + pyval"
  dumps :: "codec_arg \<Rightarrow> pyval \<Rightarrow> exc + pyval"
  want_bytes :: "pyval \<Rightarrow> exc + pyval"
  symbol_by_name :: "string \<Rightarrow> exc + string"
  construct :: "string \<Rightarrow> registry \<Rightarrow> exc option"
  ser_loads :: "async_serializer \<Rightarrow> pyval \<Rightarrow> exc + pyval"
  ser_dumps_key :: "async_serializer \<Rightarrow> string \<Rightarrow> pyval \<Rightarrow> exc + pyval"
  ser_dumps_value :: "async_serializer \<Rightarrow> string \<Rightarrow> pyval \<Rightarrow> exc + pyval"
  model_new :: "model_type \<Rightarrow> pyval \<Rightarrow> request option \<Rightarrow> exc option"
  model_dumps :: "pyval \<Rightarrow> exc + pyval"

text \<open>\<^verbatim>\<open>typ._options.serializer\<close>: \<^verbatim>\<open>None\<close> has no attribute \<^verbatim>\<open>_options\<close>.\<close>

definition options_serializer :: "model_type option \<Rightarrow> exc + codec_arg" where
  "options_serializer typ =
     (case typ of
        None \<Rightarrow> Inl (AttributeError ''_options'')
      | Some T \<Rightarrow> Inr (mt_serializer T))"

text \<open>\<^verbatim>\<open>typ(obj)\<close> and \<^verbatim>\<open>typ(obj, req=request)\<close>: \<^verbatim>\<open>None\<close> is not callable.\<close>

definition call_type :: "env \<Rightarrow> model_type option \<Rightarrow> pyval \<Rightarrow> request option \<Rightarrow> exc + pyval" where
  "call_type env typ obj r =
     (case typ of
        None \<Rightarrow> Inl (TypeError ''NoneType'')
      | Some T \<Rightarrow>
          (case model_new env T obj r of
             Some e \<Rightarrow> Inl e
           | None \<Rightarrow> Inr (PModel T obj r)))"

subsection \<open>\<^verbatim>\<open>_get_serializer\<close>\<close>

text \<open>
  \<^verbatim>\<open>
  if not isinstance(name, str):
      raise KeyError(name)
  try:
      return self._override[name]
  except KeyError:
      ser = self._override[name] = (
          symbol_by_name(self.override_classes[name])(self))
      return cast(AsyncSerializerT, ser)
  \<close>
  The right-hand side of the assignment is evaluated first: when the table lookup, the
  import or the constructor raises, nothing is stored.
\<close>

text \<open>The object \<^verbatim>\<open>cls(self)\<close> allocates, and the assignment that caches it.\<close>

definition new_instance :: "state \<Rightarrow> string \<Rightarrow> async_serializer" where
  "new_instance st cls =
     \<lparr>ser_id = length (created st), ser_class = cls, ser_registry = rid (reg st)\<rparr>"

definition store_instance :: "state \<Rightarrow> string \<Rightarrow> async_serializer \<Rightarrow> state" where
  "store_instance st n ser =
     st\<lparr>reg := (reg st)\<lparr>override := (override (reg st))(n \<mapsto> ser)\<rparr>,
        created := created st @ [ser]\<rparr>"

definition get_serializer :: "env \<Rightarrow> state \<Rightarrow> codec_arg \<Rightarrow> (exc + async_serializer) \<times> state" where
  "get_serializer env st name =
     (case name of
        CodecName n \<Rightarrow>
          (case override (reg st) n of
             Some ser \<Rightarrow> (Inr ser, st)
           | None \<Rightarrow>
               (case override_classes n of
                  None \<Rightarrow> (Inl (KeyError name), st)
                | Some path \<Rightarrow>
                    (case symbol_by_name env path of
                       Inl e \<Rightarrow> (Inl e, st)
                     | Inr cls \<Rightarrow>
                         (case construct env cls (reg st) of
                            Some e \<Rightarrow> (Inl e, st)
                          | None \<Rightarrow>
                              (Inr (new_instance st cls),
                               store_instance st n (new_instance st cls))))))
      | _ \<Rightarrow> (Inl (KeyError name), st))"

subsection \<open>\<^verbatim>\<open>loads_key\<close> and \<^verbatim>\<open>loads_value\<close>\<close>

text \<open>
  The body of the \<^verbatim>\<open>try\<close> block of \<^verbatim>\<open>loads_key\<close>:
  \<^verbatim>\<open>
  typ_serializer = typ._options.serializer
  serializer = typ_serializer or self.key_serializer
  try:
      ser = self._get_serializer(serializer)
  except KeyError:
      obj = loads(serializer, key)
  else:
      obj = await ser.loads(key)
  return cast(K, typ(obj))
  \<close>
\<close>

definition loads_key_try :: "env \<Rightarrow> state \<Rightarrow> model_type option \<Rightarrow> pyval \<Rightarrow> (exc + pyval) \<times> state" where
  "loads_key_try env st typ key =
     (case options_serializer typ of
        Inl e \<Rightarrow> (Inl e, st)
      | Inr typ_serializer \<Rightarrow>
          (let serializer = py_or typ_serializer (key_serializer (reg st))
           in case get_serializer env st serializer of
                (Inl e, st') \<Rightarrow>
                  if is_KeyError e
                  then (and_then (loads env serializer key) (\<lambda>obj. call_type env typ obj None), st')
                  else (Inl e, st')
              | (Inr ser, st') \<Rightarrow>
                  (and_then (ser_loads env ser key) (\<lambda>obj. call_type env typ obj None), st')))"

text \<open>
  \<^verbatim>\<open>
  if key is None or typ is None:
      return key
  try: ...
  except Exception as exc:
      raise KeyDecodeError(str(exc)).with_traceback(sys.exc_info()[2])
  \<close>
\<close>

definition loads_key :: "env \<Rightarrow> state \<Rightarrow> model_type option \<Rightarrow> pyval \<Rightarrow> (exc + pyval) \<times> state" where
  "loads_key env st typ key =
     (if key = PNone \<or> typ = None then (Inr key, st)
      else (case loads_key_try env st typ key of
              (r, st') \<Rightarrow> (reraise_as KeyDecodeError r, st')))"

text \<open>
  The body of the \<^verbatim>\<open>try\<close> block of \<^verbatim>\<open>loads_value\<close>:
  \<^verbatim>\<open>
  typ_serializer = typ._options.serializer
  serializer = typ_serializer or self.value_serializer
  try:
      ser = self._get_serializer(serializer)
  except KeyError:
      obj = loads(serializer, message.value)
  else:
      obj = await ser.loads(message.value)
  return cast(Event, typ(obj, req=request))
  \<close>
\<close>

definition loads_value_try ::
  "env \<Rightarrow> state \<Rightarrow> model_type option \<Rightarrow> pyval \<Rightarrow> message \<Rightarrow> request \<Rightarrow> (exc + pyval) \<times> state" where
  "loads_value_try env st typ key message request =
     (case options_serializer typ of
        Inl e \<Rightarrow> (Inl e, st)
      | Inr typ_serializer \<Rightarrow>
          (let serializer = py_or typ_serializer (value_serializer (reg st))
           in case get_serializer env st serializer of
                (Inl e, st') \<Rightarrow>
                  if is_KeyError e
                  then (and_then (loads env serializer (msg_value message))
                          (\<lambda>obj. call_type env typ obj (Some request)), st')
                  else (Inl e, st')
              | (Inr ser, st') \<Rightarrow>
                  (and_then (ser_loads env ser (msg_value message))
                     (\<lambda>obj. call_type env typ obj (Some request)), st')))"

text \<open>
  \<^verbatim>\<open>
  if message.value is None:
      return None
  try: ...
  except Exception as exc:
      raise ValueDecodeError(str(exc)).with_traceback(sys.exc_info()[2])
  \<close>
\<close>

definition loads_value ::
  "env \<Rightarrow> state \<Rightarrow> model_type option \<Rightarrow> pyval \<Rightarrow> message \<Rightarrow> request \<Rightarrow> (exc + pyval) \<times> state" where
  "loads_value env st typ key message request =
     (if msg_value message = PNone then (Inr PNone, st)
      else (case loads_value_try env st typ key message request of
              (r, st') \<Rightarrow> (reraise_as ValueDecodeError r, st')))"

subsection \<open>\<^verbatim>\<open>dumps_key\<close> and \<^verbatim>\<open>dumps_value\<close>\<close>

text \<open>
  \<^verbatim>\<open>
  is_model = False
  if isinstance(key, ModelT):
      is_model, serializer = True, key._options.serializer
  if serializer:
      try:
          ser = self._get_serializer(serializer)
      except KeyError:
          if is_model:
              return cast(ModelT, key).dumps()
          return dumps(serializer, key)
      else:
          return await ser.dumps_key(topic, cast(ModelT, key))
  return want_bytes(cast(bytes, key)) if key is not None else None
  \<close>
\<close>

definition dumps_key :: "env \<Rightarrow> state \<Rightarrow> string \<Rightarrow> pyval \<Rightarrow> codec_arg \<Rightarrow> (exc + pyval) \<times> state" where
  "dumps_key env st topic key serializer0 =
     (let serializer = (if is_model key then options_of key else serializer0)
      in if truthy serializer
         then (case get_serializer env st serializer of
                 (Inl e, st') \<Rightarrow>
                   if is_KeyError e
                   then (if is_model key then (model_dumps env key, st')
                         else (dumps env serializer key, st'))
                   else (Inl e, st')
               | (Inr ser, st') \<Rightarrow> (ser_dumps_key env ser topic key, st'))
         else (if key \<noteq> PNone then want_bytes env key else Inr PNone, st))"

text \<open>
  \<^verbatim>\<open>dumps_value\<close> is the same code on the value, with \<^verbatim>\<open>ser.dumps_value\<close> and the last
  line \<^verbatim>\<open>return cast(bytes, value)\<close>.
\<close>

definition dumps_value :: "env \<Rightarrow> state \<Rightarrow> string \<Rightarrow> pyval \<Rightarrow> codec_arg \<Rightarrow> (exc + pyval) \<times> state" where
  "dumps_value env st topic v serializer0 =
     (let serializer = (if is_model v then options_of v else serializer0)
      in if truthy serializer
         then (case get_serializer env st serializer of
                 (Inl e, st') \<Rightarrow>
                   if is_KeyError e
                   then (if is_model v then (model_dumps env v, st')
                         else (dumps env serializer v, st'))
                   else (Inl e, st')
               | (Inr ser, st') \<Rightarrow> (ser_dumps_value env ser topic v, st'))
         else (Inr v, st))"

subsection \<open>Sequences of calls\<close>

text \<open>
  A Registry is used through its five methods. \<open>exec_calls env st cs\<close> is the state after
  the calls \<open>cs\<close>, made one after the other from the state \<open>st\<close>, whatever they return
  or raise.
\<close>

datatype call =
    GetSerializer codec_arg
  | LoadsKey "model_type option" pyval
  | LoadsValue "model_type option" pyval message request
  | DumpsKey string pyval codec_arg
  | DumpsValue string pyval codec_arg

fun exec_call :: "env \<Rightarrow> state \<Rightarrow> call \<Rightarrow> state" where
  "exec_call env st (GetSerializer name) = snd (get_serializer env st name)"
| "exec_call env st (LoadsKey typ key) = snd (loads_key env st typ key)"
| "exec_call env st (LoadsValue typ key message request) =
     snd (loads_value env st typ key message request)"
| "exec_call env st (DumpsKey topic key serializer) = snd (dumps_key env st topic key serializer)"
| "exec_call env st (DumpsValue topic v serializer) = snd (dumps_value env st topic v serializer)"

definition exec_calls :: "env \<Rightarrow> state \<Rightarrow> call list \<Rightarrow> state" where
  "exec_calls env st cs = foldl (exec_call env) st cs"

text \<open>
  The states a Registry can be in: every cached name is a name of \<^verbatim>\<open>override_classes\<close>,
  the cached instances are exactly the instances constructed so far, there are as many
  of them as cached names, and the identity of an instance is its place in the order of
  construction. \<^verbatim>\<open>__init__\<close> establishes this and every call keeps it
  (\<open>wf_Registry_init\<close>, \<open>wf_exec_calls\<close>).
\<close>

definition wf_state :: "state \<Rightarrow> bool" where
  "wf_state st \<longleftrightarrow>
     dom (override (reg st)) \<subseteq> dom override_classes
     \<and> ran (override (reg st)) = set (created st)
     \<and> card (dom (override (reg st))) = length (created st)
     \<and> map ser_id (created st) = [0..<length (created st)]"

subsection \<open>Predicates of the statements\<close>

text \<open>
  A name misses when it is not a string, or is a string that is neither in the
  \<^verbatim>\<open>_override\<close> cache nor in \<^verbatim>\<open>override_classes\<close>.
\<close>

definition lookup_miss :: "state \<Rightarrow> codec_arg \<Rightarrow> bool" where
  "lookup_miss st name =
     (case name of
        CodecName n \<Rightarrow> override (reg st) n = None \<and> override_classes n = None
      | _ \<Rightarrow> True)"

text \<open>A result that is a raised \<^verbatim>\<open>KeyError\<close>.\<close>

definition raises_KeyError :: "exc + 'a \<Rightarrow> bool" where
  "raises_KeyError r = (case r of Inl e \<Rightarrow> is_KeyError e | Inr v \<Rightarrow> False)"

text \<open>The import and the constructors of the serializer classes raise no \<^verbatim>\<open>KeyError\<close>.\<close>

definition constructors_raise_no_KeyError :: "env \<Rightarrow> bool" where
  "constructors_raise_no_KeyError env \<longleftrightarrow>
     (\<forall>path e. symbol_by_name env path = Inl e \<longrightarrow> \<not> is_KeyError e)
     \<and> (\<forall>cls r e. construct env cls r = Some e \<longrightarrow> \<not> is_KeyError e)"

text \<open>The law of a codec \<open>s\<close> of the table: what \<open>dumps\<close> encodes, \<open>loads\<close> decodes.\<close>

definition codec_roundtrip :: "env \<Rightarrow> codec_arg \<Rightarrow> bool" where
  "codec_roundtrip env s \<longleftrightarrow> (\<forall>v b. dumps env s v = Inr b \<longrightarrow> loads env s b = Inr v)"

subsection \<open>An environment to run the code in\<close>

text \<open>
  A codec table with one codec, \<^verbatim>\<open>json\<close>, that encodes a string as bytes and decodes
  bytes to the string, and no codec (\<^verbatim>\<open>None\<close>) as the identity; an unknown name is a
  \<^verbatim>\<open>KeyError\<close>. Models encode themselves with their declared codec, as
  \<^verbatim>\<open>Model.dumps\<close> does. Every serializer class can be imported and constructed; its
  \<^verbatim>\<open>loads\<close> wraps what it is given, so that its results differ from the table's.
\<close>

definition example_loads :: "codec_arg \<Rightarrow> pyval \<Rightarrow> exc + pyval" where
  "example_loads c v =
     (case c of
        NoCodec \<Rightarrow> Inr v
      | CodecName n \<Rightarrow>
          (if n = ''json''
           then (case v of
                   PBytes b \<Rightarrow> Inr (PStr b)
                 | _ \<Rightarrow> Inl (TypeError ''expected bytes''))
           else Inl (KeyError c))
      | CodecObj l \<Rightarrow> Inl (TypeError ''codec object''))"

definition example_dumps :: "codec_arg \<Rightarrow> pyval \<Rightarrow> exc + pyval" where
  "example_dumps c v =
     (case c of
        NoCodec \<Rightarrow> Inr v
      | CodecName n \<Rightarrow>
          (if n = ''json''
           then (case v of
                   PStr s \<Rightarrow> Inr (PBytes s)
                 | _ \<Rightarrow> Inl (TypeError ''not serializable''))
           else Inl (KeyError c))
      | CodecObj l \<Rightarrow> Inl (TypeError ''codec object''))"

definition example_env :: env where
  "example_env =
     \<lparr>loads = example_loads,
      dumps = example_dumps,
      want_bytes = (\<lambda>v. case v of PStr s \<Rightarrow> Inr (PBytes s) | _ \<Rightarrow> Inr v),
      symbol_by_name = (\<lambda>path. Inr path),
      construct = (\<lambda>cls r. None),
      ser_loads = (\<lambda>ser v. Inr (PDict [(PStr ''avro'', v)])),
      ser_dumps_key = (\<lambda>ser topic v. Inr (PBytes (''avro-key:'' @ topic))),
      ser_dumps_value = (\<lambda>ser topic v. Inr (PBytes (''avro-value:'' @ topic))),
      model_new = (\<lambda>T d r. None),
      model_dumps = (\<lambda>v. case v of
                            PModel T d r \<Rightarrow> example_dumps (mt_serializer T) d
                          | _ \<Rightarrow> Inl (AttributeError ''dumps''))\<rparr>"

text \<open>The same environment, with the codec table interrupted from the keyboard.\<close>

definition interrupted_env :: env where
  "interrupted_env = example_env\<lparr>loads := (\<lambda>c v. Inl (BaseOnly ''KeyboardInterrupt'' []))\<rparr>"

text \<open>
  The same environment, with models whose \<^verbatim>\<open>dumps()\<close> does not go through the codec
  table.
\<close>

definition self_encoding_env :: env where
  "self_encoding_env =
     example_env\<lparr>model_dumps := (\<lambda>v. Inr (PBytes ''self-encoded''))\<rparr>"

text \<open>
  The same environment, with serializer classes whose constructor raises
  \<^verbatim>\<open>KeyError("boom")\<close>.
\<close>

definition failing_constructor_env :: env where
  "failing_constructor_env =
     example_env\<lparr>construct := (\<lambda>cls r. Some (KeyError (CodecName ''boom'')))\<rparr>"

text \<open>
  Three model classes: one that declares no serializer, one that declares \<^verbatim>\<open>json\<close>, and
  one that declares \<^verbatim>\<open>nope\<close>, a name that no table knows.
\<close>

definition Plain :: model_type where
  "Plain = \<lparr>mt_name = ''Plain'', mt_serializer = NoCodec\<rparr>"

definition Json :: model_type where
  "Json = \<lparr>mt_name = ''Json'', mt_serializer = CodecName ''json''\<rparr>"

definition Nope :: model_type where
  "Nope = \<lparr>mt_name = ''Nope'', mt_serializer = CodecName ''nope''\<rparr>"

section \<open>The states of a Registry\<close>

text \<open>
  Every method changes the state through \<^verbatim>\<open>_get_serializer\<close> only, and
  \<^verbatim>\<open>_get_serializer\<close> either leaves the state alone or constructs one instance and caches
  it under a name that had no entry.
\<close>

lemma finite_override_classes: "finite (dom override_classes)"
  by (simp add: override_classes_def)

lemma wf_Registry_init: "wf_state (Registry_init r ks vs)"
  by (simp add: wf_state_def Registry_init_def)

lemma get_serializer_cases:
  "get_serializer env st name = (r, st') \<Longrightarrow>
     (st' = st \<and> (\<forall>s. r = Inr s \<longrightarrow> (\<exists>n. name = CodecName n \<and> override (reg st) n = Some s)))
   \<or> (\<exists>n path cls. name = CodecName n \<and> override (reg st) n = None
        \<and> override_classes n = Some path
        \<and> symbol_by_name env path = Inr cls \<and> construct env cls (reg st) = None
        \<and> r = Inr (new_instance st cls)
        \<and> st' = store_instance st n (new_instance st cls))"
  by (auto simp: get_serializer_def split: codec_arg.splits option.splits sum.splits)

lemma wf_store_instance:
  assumes "wf_state st" and "override (reg st) n = None" and "override_classes n = Some path"
  shows "wf_state (store_instance st n (new_instance st cls))"
proof -
  have fin: "finite (dom (override (reg st)))"
    using assms(1) finite_override_classes by (auto simp: wf_state_def intro: finite_subset)
  have nd: "n \<notin> dom (override (reg st))" using assms(2) by auto
  show ?thesis using assms fin nd
    by (auto simp: wf_state_def store_instance_def new_instance_def domI)
qed

lemma wf_get_serializer:
  assumes "wf_state st"
  shows "wf_state (snd (get_serializer env st name))"
proof -
  obtain r st' where g: "get_serializer env st name = (r, st')"
    by (cases "get_serializer env st name")
  from get_serializer_cases[OF g] assms have "wf_state st'"
    by (auto intro: wf_store_instance)
  with g show ?thesis by simp
qed

lemma override_get_serializer:
  assumes "override (reg st) n = Some s"
  shows "override (reg (snd (get_serializer env st name))) n = Some s"
proof -
  obtain r st' where g: "get_serializer env st name = (r, st')"
    by (cases "get_serializer env st name")
  from get_serializer_cases[OF g] assms have "override (reg st') n = Some s"
    by (auto simp: store_instance_def)
  with g show ?thesis by simp
qed

lemma snd_loads_key_try:
  "snd (loads_key_try env st t key) = st
   \<or> (\<exists>name. snd (loads_key_try env st t key) = snd (get_serializer env st name))"
proof (cases "options_serializer t")
  case (Inl e)
  then show ?thesis by (simp add: loads_key_try_def)
next
  case (Inr ts)
  have "snd (loads_key_try env st t key)
        = snd (get_serializer env st (py_or ts (key_serializer (reg st))))"
    using Inr by (simp add: loads_key_try_def Let_def split: prod.splits sum.splits)
  then show ?thesis by blast
qed

lemma snd_loads_key:
  "snd (loads_key env st t key) = st
   \<or> snd (loads_key env st t key) = snd (loads_key_try env st t key)"
  by (simp add: loads_key_def split: prod.splits sum.splits)

lemma snd_loads_value_try:
  "snd (loads_value_try env st t key m r) = st
   \<or> (\<exists>name. snd (loads_value_try env st t key m r) = snd (get_serializer env st name))"
proof (cases "options_serializer t")
  case (Inl e)
  then show ?thesis by (simp add: loads_value_try_def)
next
  case (Inr ts)
  have "snd (loads_value_try env st t key m r)
        = snd (get_serializer env st (py_or ts (value_serializer (reg st))))"
    using Inr by (simp add: loads_value_try_def Let_def split: prod.splits sum.splits)
  then show ?thesis by blast
qed

lemma snd_loads_value:
  "snd (loads_value env st t key m r) = st
   \<or> snd (loads_value env st t key m r) = snd (loads_value_try env st t key m r)"
  by (simp add: loads_value_def split: prod.splits sum.splits)

lemma snd_dumps_key:
  "snd (dumps_key env st topic key s) = st
   \<or> (\<exists>name. snd (dumps_key env st topic key s) = snd (get_serializer env st name))"
proof -
  have "snd (dumps_key env st topic key s) = st
        \<or> snd (dumps_key env st topic key s)
            = snd (get_serializer env st (if is_model key then options_of key else s))"
    by (simp add: dumps_key_def Let_def split: prod.splits sum.splits)
  then show ?thesis by blast
qed

lemma snd_dumps_value:
  "snd (dumps_value env st topic v s) = st
   \<or> (\<exists>name. snd (dumps_value env st topic v s) = snd (get_serializer env st name))"
proof -
  have "snd (dumps_value env st topic v s) = st
        \<or> snd (dumps_value env st topic v s)
            = snd (get_serializer env st (if is_model v then options_of v else s))"
    by (simp add: dumps_value_def Let_def split: prod.splits sum.splits)
  then show ?thesis by blast
qed

lemma exec_call_cases:
  "exec_call env st c = st \<or> (\<exists>name. exec_call env st c = snd (get_serializer env st name))"
proof (cases c)
  case (GetSerializer name)
  then show ?thesis by auto
next
  case (LoadsKey t k)
  then show ?thesis using snd_loads_key[of env st t k] snd_loads_key_try[of env st t k] by auto
next
  case (LoadsValue t k m r)
  then show ?thesis
    using snd_loads_value[of env st t k m r] snd_loads_value_try[of env st t k m r] by auto
next
  case (DumpsKey tp k s)
  then show ?thesis using snd_dumps_key[of env st tp k s] by auto
next
  case (DumpsValue tp v s)
  then show ?thesis using snd_dumps_value[of env st tp v s] by auto
qed

lemma wf_exec_call: "wf_state st \<Longrightarrow> wf_state (exec_call env st c)"
  using exec_call_cases[of env st c] wf_get_serializer by auto

lemma override_exec_call:
  "override (reg st) n = Some s \<Longrightarrow> override (reg (exec_call env st c)) n = Some s"
  using exec_call_cases[of env st c] override_get_serializer by auto

lemma wf_exec_calls: "wf_state st \<Longrightarrow> wf_state (exec_calls env st cs)"
  unfolding exec_calls_def
  by (induction cs arbitrary: st) (simp_all add: wf_exec_call)

lemma override_exec_calls:
  "override (reg st) n = Some s \<Longrightarrow> override (reg (exec_calls env st cs)) n = Some s"
  unfolding exec_calls_def
  by (induction cs arbitrary: st) (simp_all add: override_exec_call)


lemma wf_distinct: "wf_state st \<Longrightarrow> distinct (created st)"
proof -
  assume "wf_state st"
  then have "distinct (map ser_id (created st))" by (simp add: wf_state_def)
  then show ?thesis by (rule distinct_map[THEN iffD1, THEN conjunct1])
qed

lemma filter_eq_distinct: "distinct xs \<Longrightarrow> length (filter (\<lambda>s. s = v) xs) \<le> 1"
  by (induction xs) (auto simp: filter_empty_conv)

lemma get_serializer_miss:
  "lookup_miss st name \<Longrightarrow> get_serializer env st name = (Inl (KeyError name), st)"
  by (cases name) (simp_all add: lookup_miss_def get_serializer_def)

lemma lookup_miss_init: "override_classes n = None \<Longrightarrow> lookup_miss (Registry_init r ks vs) (CodecName n)"
  by (simp add: lookup_miss_def Registry_init_def)

lemma dumps_key_miss:
  assumes "truthy name" and "lookup_miss st name"
      and "name = (if is_model key then options_of key else s)"
  shows "dumps_key env st topic key s
         = (if is_model key then model_dumps env key else dumps env name key, st)"
  using assms get_serializer_miss[OF assms(2), of env]
  by (simp add: dumps_key_def Let_def)

lemma dumps_value_miss:
  assumes "truthy name" and "lookup_miss st name"
      and "name = (if is_model v then options_of v else s)"
  shows "dumps_value env st topic v s
         = (if is_model v then model_dumps env v else dumps env name v, st)"
  using assms get_serializer_miss[OF assms(2), of env]
  by (simp add: dumps_value_def Let_def)

lemma loads_key_miss:
  assumes "key \<noteq> PNone"
      and "name = py_or (mt_serializer T) (key_serializer (reg st))"
      and "lookup_miss st name"
  shows "loads_key env st (Some T) key
         = (reraise_as KeyDecodeError
              (and_then (loads env name key) (\<lambda>obj. call_type env (Some T) obj None)), st)"
  using assms(1,2) get_serializer_miss[OF assms(3), of env]
  by (simp add: loads_key_def loads_key_try_def options_serializer_def Let_def)

lemma loads_key_hit:
  assumes "key \<noteq> PNone"
      and "name = py_or (mt_serializer T) (key_serializer (reg st))"
      and "get_serializer env st name = (Inr ser, st')"
  shows "loads_key env st (Some T) key
         = (reraise_as KeyDecodeError
              (and_then (ser_loads env ser key) (\<lambda>obj. call_type env (Some T) obj None)), st')"
  using assms
  by (simp add: loads_key_def loads_key_try_def options_serializer_def Let_def)

lemma loads_value_miss:
  assumes "msg_value message \<noteq> PNone"
      and "name = py_or (mt_serializer T) (value_serializer (reg st))"
      and "lookup_miss st name"
  shows "loads_value env st (Some T) key message request
         = (reraise_as ValueDecodeError
              (and_then (loads env name (msg_value message))
                 (\<lambda>obj. call_type env (Some T) obj (Some request))), st)"
  using assms(1,2) get_serializer_miss[OF assms(3), of env]
  by (simp add: loads_value_def loads_value_try_def options_serializer_def Let_def)

lemma call_type_ok:
  "model_new env T obj r = None \<Longrightarrow> call_type env (Some T) obj r = Inr (PModel T obj r)"
  by (simp add: call_type_def)

lemma fst_loads_key_error:
  assumes "fst (loads_key env st t key) = Inl x"
  shows "\<exists>e. fst (loads_key_try env st t key) = Inl e
             \<and> x = (if is_Exception e then KeyDecodeError e else e)"
  using assms
  by (auto simp: loads_key_def reraise_as_def split: if_splits prod.splits sum.splits)

lemma fst_loads_value_error:
  assumes "fst (loads_value env st t key message request) = Inl y"
  shows "\<exists>e. fst (loads_value_try env st t key message request) = Inl e
             \<and> y = (if is_Exception e then ValueDecodeError e else e)"
  using assms
  by (auto simp: loads_value_def reraise_as_def split: if_splits prod.splits sum.splits)

lemma py_or_eq: "py_or a b = (if truthy a then a else b)"
  by (simp add: py_or_def)

lemma reraise_as_Inr: "reraise_as K (Inr v) = Inr v"
  by (simp add: reraise_as_def)

lemma and_then_Inr: "and_then (Inr v) f = f v"
  by (simp add: and_then_def)

lemma example_codec_roundtrip: "codec_roundtrip example_env (CodecName ''json'')"
  by (auto simp: codec_roundtrip_def example_env_def example_loads_def example_dumps_def
      split: pyval.splits)

lemma get_serializer_KeyError:
  assumes "constructors_raise_no_KeyError env"
      and "raises_KeyError (fst (get_serializer env st name))"
  shows "lookup_miss st name"
proof (cases name)
  case (CodecName n)
  show ?thesis
  proof (cases "override (reg st) n")
    case None
    note cache = None
    show ?thesis
    proof (cases "override_classes n")
      case None
      with cache CodecName show ?thesis by (simp add: lookup_miss_def)
    next
      case (Some path)
      have False
      proof (cases "symbol_by_name env path")
        case (Inl e)
        then have "\<not> is_KeyError e"
          using assms(1) by (simp add: constructors_raise_no_KeyError_def)
        then show False
          using assms(2) CodecName cache Some Inl
          by (simp add: get_serializer_def raises_KeyError_def)
      next
        case (Inr cls)
        show False
        proof (cases "construct env cls (reg st)")
          case None
          then show False
            using assms(2) CodecName cache Some Inr
            by (simp add: get_serializer_def raises_KeyError_def)
        next
          case (Some e)
          then have "\<not> is_KeyError e"
            using assms(1) by (simp add: constructors_raise_no_KeyError_def)
          then show False
            using assms(2) CodecName cache \<open>override_classes n = Some path\<close> Inr Some
            by (simp add: get_serializer_def raises_KeyError_def)
        qed
      qed
      then show ?thesis ..
    qed
  next
    case (Some ser)
    then show ?thesis
      using assms(2) CodecName by (simp add: get_serializer_def raises_KeyError_def)
  qed
qed (simp_all add: lookup_miss_def)

lemma get_serializer_failed:
  "fst (get_serializer env st name) = Inl e \<Longrightarrow> snd (get_serializer env st name) = st"
  by (auto simp: get_serializer_def split: codec_arg.splits option.splits sum.splits)

lemma example_constructors: "constructors_raise_no_KeyError example_env"
  by (simp add: constructors_raise_no_KeyError_def example_env_def)

lemma loads_key_unfold:
  assumes "key \<noteq> PNone"
      and "name = py_or (mt_serializer T) (key_serializer (reg st))"
  shows "fst (loads_key env st (Some T) key)
         = reraise_as KeyDecodeError
             (case fst (get_serializer env st name) of
                Inl e \<Rightarrow>
                  if is_KeyError e
                  then and_then (loads env name key) (\<lambda>obj. call_type env (Some T) obj None)
                  else Inl e
              | Inr ser \<Rightarrow>
                  and_then (ser_loads env ser key) (\<lambda>obj. call_type env (Some T) obj None))"
  using assms
  by (simp add: loads_key_def loads_key_try_def options_serializer_def Let_def
      split: prod.splits sum.splits)

lemma loads_value_unfold:
  assumes "msg_value message \<noteq> PNone"
      and "name = py_or (mt_serializer T) (value_serializer (reg st))"
  shows "fst (loads_value env st (Some T) key message request)
         = reraise_as ValueDecodeError
             (case fst (get_serializer env st name) of
                Inl e \<Rightarrow>
                  if is_KeyError e
                  then and_then (loads env name (msg_value message))
                         (\<lambda>obj. call_type env (Some T) obj (Some request))
                  else Inl e
              | Inr ser \<Rightarrow>
                  and_then (ser_loads env ser (msg_value message))
                    (\<lambda>obj. call_type env (Some T) obj (Some request)))"
  using assms
  by (simp add: loads_value_def loads_value_try_def options_serializer_def Let_def
      split: prod.splits sum.splits)

lemma decode_stage_outcomes:
  assumes "res = reraise_as K
             (case g of
                Inl e \<Rightarrow> if is_KeyError e then and_then (l) (\<lambda>obj. call_type env (Some T) obj r) else Inl e
              | Inr ser \<Rightarrow> and_then (sl ser) (\<lambda>obj. call_type env (Some T) obj r))"
  shows "(raises_KeyError g \<and> l = Inl e \<longrightarrow> res = Inl (if is_Exception e then K e else e))
       \<and> (raises_KeyError g \<and> l = Inr obj \<and> model_new env T obj r = Some e
            \<longrightarrow> res = Inl (if is_Exception e then K e else e))
       \<and> (g = Inl e \<and> \<not> is_KeyError e \<longrightarrow> res = Inl (if is_Exception e then K e else e))
       \<and> (g = Inr ser \<and> sl ser = Inl e \<longrightarrow> res = Inl (if is_Exception e then K e else e))
       \<and> (g = Inr ser \<and> sl ser = Inr obj \<and> model_new env T obj r = Some e
            \<longrightarrow> res = Inl (if is_Exception e then K e else e))
       \<and> (raises_KeyError g \<and> l = Inr obj \<and> model_new env T obj r = None
            \<longrightarrow> res = Inr (PModel T obj r))"
  using assms
  by (auto simp: reraise_as_def and_then_def call_type_def raises_KeyError_def
      split: sum.splits option.splits)

section \<open>Absence propagation\<close>

text \<open>
  Claim C5. \<^verbatim>\<open>loads_key(typ, None)\<close> returns \<^verbatim>\<open>None\<close> for every type; \<^verbatim>\<open>loads_key(None, key)\<close>
  returns the key unchanged for every key; \<^verbatim>\<open>loads_value\<close> on a message whose value is
  \<^verbatim>\<open>None\<close> returns \<^verbatim>\<open>None\<close>. In all three cases nothing is raised, the result does not
  depend on any collaborator, and the Registry and the set of constructed serializers
  are left as they were.
\<close>

theorem absence_propagation:
  "loads_key env st typ PNone = (Inr PNone, st)
   \<and> loads_key env st None key = (Inr key, st)
   \<and> loads_value env st typ key (message\<lparr>msg_value := PNone\<rparr>) request = (Inr PNone, st)"
  by (simp add: loads_key_def loads_value_def)

section \<open>The cache of asynchronous serializers\<close>

text \<open>
  Claim C1. Let \<open>n\<close> be a name of \<^verbatim>\<open>override_classes\<close> whose class can be imported and
  constructed, on a Registry that has not resolved \<open>n\<close> yet. The first call
  \<^verbatim>\<open>_get_serializer(n)\<close> constructs exactly one instance, with the Registry as its
  argument, and stores it in \<^verbatim>\<open>_override\<close>. After any further calls \<open>cs\<close> of the
  Registry's methods, \<^verbatim>\<open>_get_serializer(n)\<close> returns that same instance (the same
  identity) and constructs nothing. At every moment each name has at most one instance:
  the instances constructed so far are exactly the cached ones, and there are as many
  of them as cached names.
\<close>

theorem get_serializer_memoizes:
  assumes "wf_state st"
      and "override (reg st) n = None"
      and "override_classes n = Some path"
      and "symbol_by_name env path = Inr cls"
      and "construct env cls (reg st) = None"
      and "ser = \<lparr>ser_id = length (created st), ser_class = cls, ser_registry = rid (reg st)\<rparr>"
      and "st1 = snd (get_serializer env st (CodecName n))"
      and "st2 = exec_calls env st1 cs"
  shows "fst (get_serializer env st (CodecName n)) = Inr ser
         \<and> created st1 = created st @ [ser]
         \<and> override (reg st1) = (override (reg st))(n \<mapsto> ser)
         \<and> get_serializer env st2 (CodecName n) = (Inr ser, st2)
         \<and> length (filter (\<lambda>s. override (reg st2) m = Some s) (created st2)) \<le> 1
         \<and> ran (override (reg st2)) = set (created st2)
         \<and> card (dom (override (reg st2))) = length (created st2)"
proof -
  have g: "get_serializer env st (CodecName n) = (Inr ser, store_instance st n ser)"
    using assms(2-6) by (simp add: get_serializer_def new_instance_def)
  then have st1: "st1 = store_instance st n ser" using assms(7) by simp
  have wf1: "wf_state st1" using assms(1,7) by (simp add: wf_get_serializer)
  then have wf2: "wf_state st2" using assms(8) by (simp add: wf_exec_calls)
  have "override (reg st1) n = Some ser" using st1 by (simp add: store_instance_def)
  then have c2: "override (reg st2) n = Some ser" using assms(8) by (simp add: override_exec_calls)
  have one: "length (filter (\<lambda>s. override (reg st2) m = Some s) (created st2)) \<le> 1"
  proof (cases "override (reg st2) m")
    case None
    then show ?thesis by simp
  next
    case (Some v)
    then have "(\<lambda>s. override (reg st2) m = Some s) = (\<lambda>s. s = v)" by auto
    then show ?thesis using filter_eq_distinct[OF wf_distinct[OF wf2], of v] by simp
  qed
  show ?thesis using g st1 c2 one wf2
    by (simp add: store_instance_def get_serializer_def wf_state_def)
qed

theorem get_serializer_memoizes_witness:
  "wf_state (Registry_default 7)
   \<and> override (reg (Registry_default 7)) ''avro'' = None
   \<and> override_classes ''avro'' = Some ''faust.serializers.avro.faust:AvroSerializer''
   \<and> symbol_by_name example_env ''faust.serializers.avro.faust:AvroSerializer''
       = Inr ''faust.serializers.avro.faust:AvroSerializer''
   \<and> construct example_env ''faust.serializers.avro.faust:AvroSerializer'' (reg (Registry_default 7)) = None
   \<and> fst (get_serializer example_env (Registry_default 7) (CodecName ''avro''))
       = Inr \<lparr>ser_id = 0, ser_class = ''faust.serializers.avro.faust:AvroSerializer'', ser_registry = 7\<rparr>
   \<and> get_serializer example_env
         (exec_calls example_env (snd (get_serializer example_env (Registry_default 7) (CodecName ''avro'')))
            [LoadsKey None (PBytes ''k''), GetSerializer (CodecName ''json'')])
         (CodecName ''avro'')
       = (Inr \<lparr>ser_id = 0, ser_class = ''faust.serializers.avro.faust:AvroSerializer'', ser_registry = 7\<rparr>,
          exec_calls example_env (snd (get_serializer example_env (Registry_default 7) (CodecName ''avro'')))
            [LoadsKey None (PBytes ''k''), GetSerializer (CodecName ''json'')])"
proof -
  have h1: "wf_state (Registry_default 7)" by (simp add: Registry_default_def wf_Registry_init)
  have h2: "override (reg (Registry_default 7)) ''avro'' = None"
    by (simp add: Registry_default_def Registry_init_def)
  have h3: "override_classes ''avro'' = Some ''faust.serializers.avro.faust:AvroSerializer''"
    by (simp add: override_classes_def)
  have h4: "symbol_by_name example_env ''faust.serializers.avro.faust:AvroSerializer''
       = Inr ''faust.serializers.avro.faust:AvroSerializer''"
    by (simp add: example_env_def)
  have h5: "construct example_env ''faust.serializers.avro.faust:AvroSerializer'' (reg (Registry_default 7)) = None"
    by (simp add: example_env_def)
  have h6: "\<lparr>ser_id = 0, ser_class = ''faust.serializers.avro.faust:AvroSerializer'', ser_registry = 7\<rparr>
            = \<lparr>ser_id = length (created (Registry_default 7)),
               ser_class = ''faust.serializers.avro.faust:AvroSerializer'',
               ser_registry = rid (reg (Registry_default 7))\<rparr>"
    by (simp add: Registry_default_def Registry_init_def)
  show ?thesis
    using h1 h2 h3 h4 h5 get_serializer_memoizes[OF h1 h2 h3 h4 h5 h6 refl refl]
    by simp
qed

section \<open>Encoding\<close>

text \<open>
  Claim C6. For every value that is not a model instance and no serializer argument
  (\<^verbatim>\<open>serializer=None\<close>), \<^verbatim>\<open>dumps_value\<close> returns the value itself, unchanged, whatever
  the \<^verbatim>\<open>value_serializer\<close> of the Registry is: neither the codec table nor any other
  collaborator is called, and the Registry is left as it was.
\<close>

theorem dumps_value_untyped_passthrough:
  assumes "\<not> is_model v"
  shows "dumps_value env st topic v NoCodec = (Inr v, st)"
  using assms by (simp add: dumps_value_def)

text \<open>The dict \<^verbatim>\<open>{"a": 1}\<close> on a Registry whose \<^verbatim>\<open>value_serializer\<close> is \<^verbatim>\<open>json\<close>.\<close>

theorem dumps_value_untyped_passthrough_witness:
  "\<not> is_model (PDict [(PStr ''a'', PInt 1)])
   \<and> value_serializer (reg (Registry_default 0)) = CodecName ''json''
   \<and> dumps_value example_env (Registry_default 0) ''topic1'' (PDict [(PStr ''a'', PInt 1)]) NoCodec
       = (Inr (PDict [(PStr ''a'', PInt 1)]), Registry_default 0)"
proof -
  have h: "\<not> is_model (PDict [(PStr ''a'', PInt 1)])" by simp
  show ?thesis
    using h dumps_value_untyped_passthrough[OF h, of example_env "Registry_default 0" "''topic1''"]
    by (simp add: Registry_default_def Registry_init_def)
qed

text \<open>
  Claim C7, as the code has it. For every model instance whose class declares a
  serializer name (a non-empty string) that is not in \<^verbatim>\<open>override_classes\<close>,
  \<^verbatim>\<open>dumps_key\<close> and \<^verbatim>\<open>dumps_value\<close> do what the instance's own \<^verbatim>\<open>dumps()\<close> does,
  whatever the codec table does with that name and whatever serializer argument is
  passed: they return the bytes it returns, and raise, unchanged, what it raises. The
  lookup miss itself is not raised and the Registry is left as it was.
\<close>

theorem model_encode_fallback:
  assumes "wf_state st"
      and "mt_serializer T = CodecName n"
      and "n \<noteq> []"
      and "override_classes n = None"
  shows "dumps_key env st topic (PModel T d r) s = (model_dumps env (PModel T d r), st)
         \<and> dumps_value env st topic (PModel T d r) s = (model_dumps env (PModel T d r), st)
         \<and> (model_dumps env (PModel T d r) = Inr b \<longrightarrow>
              dumps_key env st topic (PModel T d r) s = (Inr b, st)
              \<and> dumps_value env st topic (PModel T d r) s = (Inr b, st))
         \<and> (model_dumps env (PModel T d r) = Inl e \<longrightarrow>
              dumps_key env st topic (PModel T d r) s = (Inl e, st)
              \<and> dumps_value env st topic (PModel T d r) s = (Inl e, st))"
proof -
  have "override (reg st) n = None"
    using assms(1,4) by (auto simp: wf_state_def)
  then have miss: "lookup_miss st (CodecName n)" using assms(4) by (simp add: lookup_miss_def)
  have t: "truthy (CodecName n)" using assms(3) by simp
  have nm: "CodecName n = (if is_model (PModel T d r) then options_of (PModel T d r) else s)"
    using assms(2) by simp
  show ?thesis
    using dumps_key_miss[OF t miss nm, of env topic] dumps_value_miss[OF t miss nm, of env topic]
    by simp
qed

text \<open>
  A model declaring \<^verbatim>\<open>json\<close>: both methods return its self-encoding, where the codec
  table applied to the instance would raise.
\<close>

theorem model_encode_fallback_witness:
  "wf_state (Registry_default 0)
   \<and> mt_serializer Json = CodecName ''json''
   \<and> ''json'' \<noteq> []
   \<and> override_classes ''json'' = None
   \<and> model_dumps example_env (PModel Json (PStr ''x'') None) = Inr (PBytes ''x'')
   \<and> dumps_key example_env (Registry_default 0) ''topic1'' (PModel Json (PStr ''x'') None) NoCodec
       = (Inr (PBytes ''x''), Registry_default 0)
   \<and> dumps_value example_env (Registry_default 0) ''topic1'' (PModel Json (PStr ''x'') None) NoCodec
       = (Inr (PBytes ''x''), Registry_default 0)
   \<and> dumps example_env (CodecName ''json'') (PModel Json (PStr ''x'') None)
       = Inl (TypeError ''not serializable'')"
proof -
  have h1: "wf_state (Registry_default 0)" by (simp add: Registry_default_def wf_Registry_init)
  have h2: "mt_serializer Json = CodecName ''json''" by (simp add: Json_def)
  have h3: "''json'' \<noteq> []" by simp
  have h4: "override_classes ''json'' = None" by (simp add: override_classes_def)
  have md: "model_dumps example_env (PModel Json (PStr ''x'') None) = Inr (PBytes ''x'')"
    by (simp add: example_env_def example_dumps_def Json_def)
  have cd: "dumps example_env (CodecName ''json'') (PModel Json (PStr ''x'') None)
            = Inl (TypeError ''not serializable'')"
    by (simp add: example_env_def example_dumps_def)
  note inst = model_encode_fallback[OF h1 h2 h3 h4, where env = example_env
      and topic = "''topic1''" and d = "PStr ''x''" and r = None and s = NoCodec
      and b = "PBytes ''x''"]
  from inst md have kv:
    "dumps_key example_env (Registry_default 0) ''topic1'' (PModel Json (PStr ''x'') None) NoCodec
       = (Inr (PBytes ''x''), Registry_default 0)
     \<and> dumps_value example_env (Registry_default 0) ''topic1'' (PModel Json (PStr ''x'') None) NoCodec
       = (Inr (PBytes ''x''), Registry_default 0)"
    by blast
  show ?thesis using h1 h2 h3 h4 md cd kv by blast
qed

text \<open>
  The claim as stated (the self-encoding is returned, not an error) fails for a model
  declaring \<^verbatim>\<open>nope\<close>, a name the codec table does not know either: the model's
  \<^verbatim>\<open>dumps()\<close> raises \<^verbatim>\<open>KeyError\<close>, and so do \<^verbatim>\<open>dumps_key\<close> and \<^verbatim>\<open>dumps_value\<close>.
\<close>

theorem model_encode_fallback_counterexample:
  "wf_state (Registry_default 0)
   \<and> mt_serializer Nope = CodecName ''nope''
   \<and> override_classes ''nope'' = None
   \<and> dumps_key example_env (Registry_default 0) ''topic1'' (PModel Nope (PStr ''x'') None) NoCodec
       = (Inl (KeyError (CodecName ''nope'')), Registry_default 0)
   \<and> dumps_value example_env (Registry_default 0) ''topic1'' (PModel Nope (PStr ''x'') None) NoCodec
       = (Inl (KeyError (CodecName ''nope'')), Registry_default 0)"
proof -
  have h1: "wf_state (Registry_default 0)" by (simp add: Registry_default_def wf_Registry_init)
  have h4: "override_classes ''nope'' = None" by (simp add: override_classes_def)
  have miss: "lookup_miss (Registry_default 0) (CodecName ''nope'')"
    using h4 by (simp add: Registry_default_def lookup_miss_init)
  have t: "truthy (CodecName ''nope'')" by simp
  have nm: "CodecName ''nope''
            = (if is_model (PModel Nope (PStr ''x'') None)
               then options_of (PModel Nope (PStr ''x'') None) else NoCodec)"
    by (simp add: Nope_def)
  have md: "model_dumps example_env (PModel Nope (PStr ''x'') None)
            = Inl (KeyError (CodecName ''nope''))"
    by (simp add: example_env_def example_dumps_def Nope_def)
  show ?thesis
    using h1 h4 md dumps_key_miss[OF t miss nm, of example_env "''topic1''"]
      dumps_value_miss[OF t miss nm, of example_env "''topic1''"]
    by (simp add: Nope_def)
qed

text \<open>
  Claim C8. For a key that is a model instance, \<^verbatim>\<open>dumps_key\<close> uses the serializer its
  class declares and never the serializer argument: the result is the same for every
  argument, it is the result for the declared serializer passed as the argument, and
  when the class declares a serializer the name resolved by \<^verbatim>\<open>_get_serializer\<close> is the
  declared one. The same holds of \<^verbatim>\<open>dumps_value\<close> on a value that is a model instance.
\<close>

theorem model_serializer_overrides_argument:
  "dumps_key env st topic (PModel T d r) s = dumps_key env st topic (PModel T d r) (mt_serializer T)
   \<and> dumps_value env st topic (PModel T d r) s = dumps_value env st topic (PModel T d r) (mt_serializer T)
   \<and> dumps_key env st topic (PModel T d r) s = dumps_key env st topic (PModel T d r) s'
   \<and> dumps_value env st topic (PModel T d r) s = dumps_value env st topic (PModel T d r) s'
   \<and> (truthy (mt_serializer T) \<longrightarrow>
        snd (dumps_key env st topic (PModel T d r) s) = snd (get_serializer env st (mt_serializer T))
        \<and> snd (dumps_value env st topic (PModel T d r) s) = snd (get_serializer env st (mt_serializer T)))"
  by (simp add: dumps_key_def dumps_value_def Let_def split: prod.splits sum.splits)

text \<open>A model declaring \<^verbatim>\<open>json\<close>, encoded with the argument \<^verbatim>\<open>avro\<close>.\<close>

theorem model_serializer_overrides_argument_witness:
  "truthy (mt_serializer Json)
   \<and> dumps_key example_env (Registry_default 0) ''topic1'' (PModel Json (PStr ''x'') None)
         (CodecName ''avro'')
       = (Inr (PBytes ''x''), Registry_default 0)
   \<and> dumps_value example_env (Registry_default 0) ''topic1'' (PModel Json (PStr ''x'') None)
         (CodecName ''avro'')
       = (Inr (PBytes ''x''), Registry_default 0)"
proof -
  have h: "truthy (mt_serializer Json)" by (simp add: Json_def)
  have miss: "lookup_miss (Registry_default 0) (mt_serializer Json)"
    by (simp add: Json_def Registry_default_def lookup_miss_init override_classes_def)
  have nm: "mt_serializer Json
            = (if is_model (PModel Json (PStr ''x'') None)
               then options_of (PModel Json (PStr ''x'') None) else CodecName ''json'')"
    by simp
  have md: "model_dumps example_env (PModel Json (PStr ''x'') None) = Inr (PBytes ''x'')"
    by (simp add: example_env_def example_dumps_def Json_def)
  have k: "dumps_key example_env (Registry_default 0) ''topic1'' (PModel Json (PStr ''x'') None)
             (CodecName ''json'')
           = (Inr (PBytes ''x''), Registry_default 0)"
    using dumps_key_miss[OF h miss nm, of example_env "''topic1''"] md by simp
  have v: "dumps_value example_env (Registry_default 0) ''topic1'' (PModel Json (PStr ''x'') None)
             (CodecName ''json'')
           = (Inr (PBytes ''x''), Registry_default 0)"
    using dumps_value_miss[OF h miss nm, of example_env "''topic1''"] md by simp
  note inst = model_serializer_overrides_argument[of example_env "Registry_default 0" "''topic1''"
      Json "PStr ''x''" None "CodecName ''avro''" "CodecName ''json''"]
  from inst have e1: "dumps_key example_env (Registry_default 0) ''topic1''
      (PModel Json (PStr ''x'') None) (CodecName ''avro'')
      = dumps_key example_env (Registry_default 0) ''topic1''
      (PModel Json (PStr ''x'') None) (CodecName ''json'')"
    by blast
  from inst have e2: "dumps_value example_env (Registry_default 0) ''topic1''
      (PModel Json (PStr ''x'') None) (CodecName ''avro'')
      = dumps_value example_env (Registry_default 0) ''topic1''
      (PModel Json (PStr ''x'') None) (CodecName ''json'')"
    by blast
  show ?thesis using h k v e1 e2 by simp
qed

section \<open>Decoding with no type\<close>

text \<open>
  Claim C10, as the code has it. \<^verbatim>\<open>loads_value\<close> tests \<^verbatim>\<open>message.value\<close> only: for a
  message whose value is present and a type argument that is \<^verbatim>\<open>None\<close>, reading
  \<^verbatim>\<open>typ._options\<close> raises \<^verbatim>\<open>AttributeError\<close> inside the \<^verbatim>\<open>try\<close> block and
  \<^verbatim>\<open>loads_value\<close> raises \<^verbatim>\<open>ValueDecodeError\<close>; the Registry is left as it was.
  \<^verbatim>\<open>loads_key\<close> on the same raw data and no type returns the data unchanged.
\<close>

theorem loads_value_absent_type:
  assumes "msg_value message \<noteq> PNone"
  shows "loads_value env st None key message request
           = (Inl (ValueDecodeError (AttributeError ''_options'')), st)
         \<and> loads_key env st None (msg_value message) = (Inr (msg_value message), st)"
  using assms
  by (simp add: loads_value_def loads_value_try_def loads_key_def options_serializer_def reraise_as_def)

theorem loads_value_absent_type_witness:
  "msg_value \<lparr>msg_key = PNone, msg_value = PBytes ''v''\<rparr> \<noteq> PNone
   \<and> loads_value example_env (Registry_default 0) None PNone
         \<lparr>msg_key = PNone, msg_value = PBytes ''v''\<rparr> (Request ''r'')
       = (Inl (ValueDecodeError (AttributeError ''_options'')), Registry_default 0)
   \<and> loads_key example_env (Registry_default 0) None (PBytes ''v'')
       = (Inr (PBytes ''v''), Registry_default 0)"
proof -
  have h: "msg_value \<lparr>msg_key = PNone, msg_value = PBytes ''v''\<rparr> \<noteq> PNone" by simp
  show ?thesis
    using h loads_value_absent_type[OF h, of example_env "Registry_default 0" PNone "Request ''r''"]
    by simp
qed

text \<open>
  The claim as stated (with no type, \<^verbatim>\<open>loads_value\<close> returns the raw value unchanged, as
  \<^verbatim>\<open>loads_key\<close> does) fails on the value \<^verbatim>\<open>b"v"\<close>.
\<close>

theorem loads_value_absent_type_counterexample:
  "fst (loads_value example_env (Registry_default 0) None PNone
          \<lparr>msg_key = PNone, msg_value = PBytes ''v''\<rparr> (Request ''r''))
     = Inl (ValueDecodeError (AttributeError ''_options''))
   \<and> fst (loads_value example_env (Registry_default 0) None PNone
          \<lparr>msg_key = PNone, msg_value = PBytes ''v''\<rparr> (Request ''r''))
     \<noteq> Inr (PBytes ''v'')
   \<and> fst (loads_key example_env (Registry_default 0) None (PBytes ''v'')) = Inr (PBytes ''v'')"
  by (simp add: loads_value_def loads_value_try_def loads_key_def options_serializer_def reraise_as_def)

section \<open>Decoding\<close>

text \<open>
  Claim C2, as the code has it. Let \<open>nk\<close> be the name \<^verbatim>\<open>loads_key\<close> decodes a present key
  under. An exception \<open>e\<close> raised in the \<^verbatim>\<open>try\<close> block by the codec table, by the
  \<^verbatim>\<open>loads\<close> of the asynchronous serializer, by the constructor of the model, or by
  \<^verbatim>\<open>_get_serializer\<close> when it is not a \<^verbatim>\<open>KeyError\<close> (a failing import or serializer
  constructor), leaves \<^verbatim>\<open>loads_key\<close> as \<^verbatim>\<open>KeyDecodeError\<close> carrying the description of
  \<open>e\<close> when \<open>e\<close> derives from \<^verbatim>\<open>Exception\<close>, and as \<open>e\<close> itself, unchanged, when it
  does not. A \<^verbatim>\<open>KeyError\<close> raised by \<^verbatim>\<open>_get_serializer\<close>, its own or one of the import or
  the constructor, is taken as a miss: the codec table decodes, and when it and the
  model constructor succeed the method returns. The same holds of \<^verbatim>\<open>loads_value\<close> with
  \<^verbatim>\<open>ValueDecodeError\<close>. For every type, key and message, \<^verbatim>\<open>KeyDecodeError\<close> and
  \<^verbatim>\<open>ValueDecodeError\<close> are the only exceptions deriving from \<^verbatim>\<open>Exception\<close> that
  \<^verbatim>\<open>loads_key\<close> and \<^verbatim>\<open>loads_value\<close> raise.
\<close>

theorem decode_errors_normalized:
  assumes "key \<noteq> PNone" and "msg_value message \<noteq> PNone"
      and "nk = (if truthy (mt_serializer T) then mt_serializer T else key_serializer (reg st))"
      and "nv = (if truthy (mt_serializer T) then mt_serializer T else value_serializer (reg st))"
  shows "(raises_KeyError (fst (get_serializer env st nk)) \<and> loads env nk key = Inl e
            \<longrightarrow> fst (loads_key env st (Some T) key)
                = Inl (if is_Exception e then KeyDecodeError e else e))
       \<and> (raises_KeyError (fst (get_serializer env st nk)) \<and> loads env nk key = Inr obj
            \<and> model_new env T obj None = Some e
            \<longrightarrow> fst (loads_key env st (Some T) key)
                = Inl (if is_Exception e then KeyDecodeError e else e))
       \<and> (fst (get_serializer env st nk) = Inl e \<and> \<not> is_KeyError e
            \<longrightarrow> fst (loads_key env st (Some T) key)
                = Inl (if is_Exception e then KeyDecodeError e else e))
       \<and> (fst (get_serializer env st nk) = Inr ser \<and> ser_loads env ser key = Inl e
            \<longrightarrow> fst (loads_key env st (Some T) key)
                = Inl (if is_Exception e then KeyDecodeError e else e))
       \<and> (fst (get_serializer env st nk) = Inr ser \<and> ser_loads env ser key = Inr obj
            \<and> model_new env T obj None = Some e
            \<longrightarrow> fst (loads_key env st (Some T) key)
                = Inl (if is_Exception e then KeyDecodeError e else e))
       \<and> (raises_KeyError (fst (get_serializer env st nk)) \<and> loads env nk key = Inr obj
            \<and> model_new env T obj None = None
            \<longrightarrow> fst (loads_key env st (Some T) key) = Inr (PModel T obj None))
       \<and> (raises_KeyError (fst (get_serializer env st nv))
            \<and> loads env nv (msg_value message) = Inl e
            \<longrightarrow> fst (loads_value env st (Some T) k message request)
                = Inl (if is_Exception e then ValueDecodeError e else e))
       \<and> (raises_KeyError (fst (get_serializer env st nv))
            \<and> loads env nv (msg_value message) = Inr obj
            \<and> model_new env T obj (Some request) = Some e
            \<longrightarrow> fst (loads_value env st (Some T) k message request)
                = Inl (if is_Exception e then ValueDecodeError e else e))
       \<and> (fst (get_serializer env st nv) = Inl e \<and> \<not> is_KeyError e
            \<longrightarrow> fst (loads_value env st (Some T) k message request)
                = Inl (if is_Exception e then ValueDecodeError e else e))
       \<and> (fst (get_serializer env st nv) = Inr ser
            \<and> ser_loads env ser (msg_value message) = Inl e
            \<longrightarrow> fst (loads_value env st (Some T) k message request)
                = Inl (if is_Exception e then ValueDecodeError e else e))
       \<and> (fst (get_serializer env st nv) = Inr ser
            \<and> ser_loads env ser (msg_value message) = Inr obj
            \<and> model_new env T obj (Some request) = Some e
            \<longrightarrow> fst (loads_value env st (Some T) k message request)
                = Inl (if is_Exception e then ValueDecodeError e else e))
       \<and> (raises_KeyError (fst (get_serializer env st nv))
            \<and> loads env nv (msg_value message) = Inr obj
            \<and> model_new env T obj (Some request) = None
            \<longrightarrow> fst (loads_value env st (Some T) k message request)
                = Inr (PModel T obj (Some request)))
       \<and> (fst (loads_key env st t k') = Inl x \<and> is_Exception x \<longrightarrow> is_KeyDecodeError x)
       \<and> (fst (loads_value env st t k' m' request') = Inl y \<and> is_Exception y
            \<longrightarrow> is_ValueDecodeError y)"
proof -
  have nk: "nk = py_or (mt_serializer T) (key_serializer (reg st))"
    using assms(3) by (simp add: py_or_eq)
  have nv: "nv = py_or (mt_serializer T) (value_serializer (reg st))"
    using assms(4) by (simp add: py_or_eq)
  note dk = decode_stage_outcomes[where res = "fst (loads_key env st (Some T) key)"
      and K = KeyDecodeError and g = "fst (get_serializer env st nk)" and l = "loads env nk key"
      and sl = "\<lambda>ser. ser_loads env ser key" and r = None and T = T and env = env
      and e = e and obj = obj and ser = ser, OF loads_key_unfold[OF assms(1) nk]]
  note dv = decode_stage_outcomes[where res = "fst (loads_value env st (Some T) k message request)"
      and K = ValueDecodeError and g = "fst (get_serializer env st nv)"
      and l = "loads env nv (msg_value message)"
      and sl = "\<lambda>ser. ser_loads env ser (msg_value message)" and r = "Some request"
      and T = T and env = env and e = e and obj = obj and ser = ser,
      OF loads_value_unfold[OF assms(2) nv]]
  have c: "fst (loads_key env st t k') = Inl x \<and> is_Exception x \<longrightarrow> is_KeyDecodeError x"
    using fst_loads_key_error[of env st t k' x] by (auto split: if_splits)
  have d: "fst (loads_value env st t k' m' request') = Inl y \<and> is_Exception y
      \<longrightarrow> is_ValueDecodeError y"
    using fst_loads_value_error[of env st t k' m' request' y] by (auto split: if_splits)
  show ?thesis using dk dv c d by simp
qed

text \<open>
  A codec lookup miss for the key (the key serializer \<^verbatim>\<open>nope\<close> is in no table) and
  malformed data for the value (a string where the codec \<^verbatim>\<open>json\<close> expects bytes).
\<close>

theorem decode_errors_normalized_witness:
  "PBytes ''k'' \<noteq> PNone
   \<and> msg_value \<lparr>msg_key = PNone, msg_value = PStr ''bad''\<rparr> \<noteq> PNone
   \<and> CodecName ''nope''
       = (if truthy (mt_serializer Plain) then mt_serializer Plain
          else key_serializer (reg (Registry_init 0 (CodecName ''nope'') (CodecName ''json''))))
   \<and> CodecName ''json''
       = (if truthy (mt_serializer Plain) then mt_serializer Plain
          else value_serializer (reg (Registry_init 0 (CodecName ''nope'') (CodecName ''json''))))
   \<and> raises_KeyError (fst (get_serializer example_env
          (Registry_init 0 (CodecName ''nope'') (CodecName ''json'')) (CodecName ''nope'')))
   \<and> loads example_env (CodecName ''nope'') (PBytes ''k'') = Inl (KeyError (CodecName ''nope''))
   \<and> fst (loads_key example_env (Registry_init 0 (CodecName ''nope'') (CodecName ''json''))
          (Some Plain) (PBytes ''k''))
       = Inl (KeyDecodeError (KeyError (CodecName ''nope'')))
   \<and> raises_KeyError (fst (get_serializer example_env
          (Registry_init 0 (CodecName ''nope'') (CodecName ''json'')) (CodecName ''json'')))
   \<and> loads example_env (CodecName ''json'') (PStr ''bad'') = Inl (TypeError ''expected bytes'')
   \<and> fst (loads_value example_env (Registry_init 0 (CodecName ''nope'') (CodecName ''json''))
          (Some Plain) PNone \<lparr>msg_key = PNone, msg_value = PStr ''bad''\<rparr> (Request ''r''))
       = Inl (ValueDecodeError (TypeError ''expected bytes''))"
proof -
  have h1: "PBytes ''k'' \<noteq> PNone" by simp
  have h2: "msg_value \<lparr>msg_key = PNone, msg_value = PStr ''bad''\<rparr> \<noteq> PNone" by simp
  have h3: "CodecName ''nope''
       = (if truthy (mt_serializer Plain) then mt_serializer Plain
          else key_serializer (reg (Registry_init 0 (CodecName ''nope'') (CodecName ''json''))))"
    by (simp add: Plain_def Registry_init_def)
  have h4: "CodecName ''json''
       = (if truthy (mt_serializer Plain) then mt_serializer Plain
          else value_serializer (reg (Registry_init 0 (CodecName ''nope'') (CodecName ''json''))))"
    by (simp add: Plain_def Registry_init_def)
  have g1: "raises_KeyError (fst (get_serializer example_env
          (Registry_init 0 (CodecName ''nope'') (CodecName ''json'')) (CodecName ''nope'')))"
    by (simp add: get_serializer_miss lookup_miss_init override_classes_def raises_KeyError_def)
  have g2: "raises_KeyError (fst (get_serializer example_env
          (Registry_init 0 (CodecName ''nope'') (CodecName ''json'')) (CodecName ''json'')))"
    by (simp add: get_serializer_miss lookup_miss_init override_classes_def raises_KeyError_def)
  have l1: "loads example_env (CodecName ''nope'') (PBytes ''k'') = Inl (KeyError (CodecName ''nope''))"
    by (simp add: example_env_def example_loads_def)
  have l2: "loads example_env (CodecName ''json'') (PStr ''bad'') = Inl (TypeError ''expected bytes'')"
    by (simp add: example_env_def example_loads_def)
  note i1 = decode_errors_normalized[OF h1 h2 h3 h4, where env = example_env
      and e = "KeyError (CodecName ''nope'')" and k = PNone and request = "Request ''r''"]
  note i2 = decode_errors_normalized[OF h1 h2 h3 h4, where env = example_env
      and e = "TypeError ''expected bytes''" and k = PNone and request = "Request ''r''"]
  from i1 g1 l1 have a: "fst (loads_key example_env (Registry_init 0 (CodecName ''nope'') (CodecName ''json''))
          (Some Plain) (PBytes ''k''))
       = Inl (KeyDecodeError (KeyError (CodecName ''nope'')))"
    by simp
  from i2 g2 l2 have b: "fst (loads_value example_env (Registry_init 0 (CodecName ''nope'') (CodecName ''json''))
          (Some Plain) PNone \<lparr>msg_key = PNone, msg_value = PStr ''bad''\<rparr> (Request ''r''))
       = Inl (ValueDecodeError (TypeError ''expected bytes''))"
    by simp
  show ?thesis using h1 h2 h3 h4 g1 g2 l1 l2 a b by blast
qed

text \<open>
  The claim as stated (every exception raised inside the decode path surfaces as
  \<^verbatim>\<open>KeyDecodeError\<close> or \<^verbatim>\<open>ValueDecodeError\<close> carrying its description, never as itself)
  fails twice. A \<^verbatim>\<open>KeyboardInterrupt\<close> raised while the codec runs reaches the caller
  unchanged. A \<^verbatim>\<open>KeyError("boom")\<close> raised by the constructor of the serializer class
  is caught as a lookup miss: what \<^verbatim>\<open>loads_key\<close> raises then carries the description of
  the codec table's later failure, not of that exception.
\<close>

theorem decode_errors_normalized_counterexample:
  "loads interrupted_env NoCodec (PBytes ''k'') = Inl (BaseOnly ''KeyboardInterrupt'' [])
   \<and> fst (loads_key interrupted_env (Registry_default 0) (Some Plain) (PBytes ''k''))
       = Inl (BaseOnly ''KeyboardInterrupt'' [])
   \<and> \<not> is_KeyDecodeError (BaseOnly ''KeyboardInterrupt'' [])
   \<and> fst (loads_value interrupted_env (Registry_default 0) (Some Plain) PNone
          \<lparr>msg_key = PNone, msg_value = PBytes ''v''\<rparr> (Request ''r''))
       = Inl (BaseOnly ''KeyboardInterrupt'' [])
   \<and> \<not> is_ValueDecodeError (BaseOnly ''KeyboardInterrupt'' [])
   \<and> fst (get_serializer failing_constructor_env
          (Registry_init 0 (CodecName ''avro'') (CodecName ''json'')) (CodecName ''avro''))
       = Inl (KeyError (CodecName ''boom''))
   \<and> fst (loads_key failing_constructor_env
          (Registry_init 0 (CodecName ''avro'') (CodecName ''json'')) (Some Plain) (PBytes ''k''))
       = Inl (KeyDecodeError (KeyError (CodecName ''avro'')))"
  by (simp add: loads_key_def loads_key_try_def loads_value_def loads_value_try_def
      options_serializer_def Let_def py_or_def get_serializer_def override_classes_def
      Registry_default_def Registry_init_def Plain_def interrupted_env_def
      failing_constructor_env_def example_env_def example_loads_def and_then_def reraise_as_def)

text \<open>
  Claim C3, as the code has it. For a present key, \<^verbatim>\<open>loads_key\<close> decodes under the name
  \<open>name\<close>: the serializer the type declares if it declares one, the Registry's
  \<^verbatim>\<open>key_serializer\<close> otherwise. When that name misses, the codec table decodes the key
  under it; when it resolves to an asynchronous serializer, that serializer's
  \<^verbatim>\<open>loads\<close> decodes the key. In both cases, when decoding and the constructor succeed,
  the result is the instance of the type that wraps the decoded value.
\<close>

theorem loads_key_serializer_precedence:
  assumes "key \<noteq> PNone"
      and "name = (if truthy (mt_serializer T) then mt_serializer T else key_serializer (reg st))"
  shows "(lookup_miss st name \<longrightarrow>
            loads_key env st (Some T) key
            = (reraise_as KeyDecodeError
                 (and_then (loads env name key) (\<lambda>obj. call_type env (Some T) obj None)), st))
         \<and> (lookup_miss st name \<and> loads env name key = Inr obj \<and> model_new env T obj None = None
              \<longrightarrow> loads_key env st (Some T) key = (Inr (PModel T obj None), st))
         \<and> (get_serializer env st name = (Inr ser, st') \<longrightarrow>
            loads_key env st (Some T) key
            = (reraise_as KeyDecodeError
                 (and_then (ser_loads env ser key) (\<lambda>obj. call_type env (Some T) obj None)), st'))
         \<and> (get_serializer env st name = (Inr ser, st') \<and> ser_loads env ser key = Inr obj
              \<and> model_new env T obj None = None
              \<longrightarrow> loads_key env st (Some T) key = (Inr (PModel T obj None), st'))"
proof -
  have nm: "name = py_or (mt_serializer T) (key_serializer (reg st))"
    using assms(2) by (simp add: py_or_eq)
  have a: "lookup_miss st name \<longrightarrow>
            loads_key env st (Some T) key
            = (reraise_as KeyDecodeError
                 (and_then (loads env name key) (\<lambda>obj. call_type env (Some T) obj None)), st)"
    using loads_key_miss[OF assms(1) nm] by blast
  have b: "get_serializer env st name = (Inr ser, st') \<longrightarrow>
            loads_key env st (Some T) key
            = (reraise_as KeyDecodeError
                 (and_then (ser_loads env ser key) (\<lambda>obj. call_type env (Some T) obj None)), st')"
    using loads_key_hit[OF assms(1) nm] by blast
  show ?thesis using a b by (simp add: and_then_Inr reraise_as_Inr call_type_ok)
qed

text \<open>A type that declares no serializer, on a Registry whose key serializer is \<^verbatim>\<open>json\<close>.\<close>

theorem loads_key_serializer_precedence_witness:
  "PBytes ''k'' \<noteq> PNone
   \<and> CodecName ''json''
       = (if truthy (mt_serializer Plain) then mt_serializer Plain
          else key_serializer (reg (Registry_init 0 (CodecName ''json'') (CodecName ''json''))))
   \<and> lookup_miss (Registry_init 0 (CodecName ''json'') (CodecName ''json'')) (CodecName ''json'')
   \<and> loads example_env (CodecName ''json'') (PBytes ''k'') = Inr (PStr ''k'')
   \<and> model_new example_env Plain (PStr ''k'') None = None
   \<and> loads_key example_env (Registry_init 0 (CodecName ''json'') (CodecName ''json''))
         (Some Plain) (PBytes ''k'')
       = (Inr (PModel Plain (PStr ''k'') None), Registry_init 0 (CodecName ''json'') (CodecName ''json''))"
proof -
  have h1: "PBytes ''k'' \<noteq> PNone" by simp
  have h2: "CodecName ''json''
       = (if truthy (mt_serializer Plain) then mt_serializer Plain
          else key_serializer (reg (Registry_init 0 (CodecName ''json'') (CodecName ''json''))))"
    by (simp add: Plain_def Registry_init_def)
  have h3: "lookup_miss (Registry_init 0 (CodecName ''json'') (CodecName ''json'')) (CodecName ''json'')"
    by (simp add: lookup_miss_init override_classes_def)
  have h4: "loads example_env (CodecName ''json'') (PBytes ''k'') = Inr (PStr ''k'')"
    by (simp add: example_env_def example_loads_def)
  have h5: "model_new example_env Plain (PStr ''k'') None = None"
    by (simp add: example_env_def)
  from loads_key_serializer_precedence[OF h1 h2, of example_env "PStr ''k''"] h3 h4 h5
  have "loads_key example_env (Registry_init 0 (CodecName ''json'') (CodecName ''json''))
         (Some Plain) (PBytes ''k'')
       = (Inr (PModel Plain (PStr ''k'') None), Registry_init 0 (CodecName ''json'') (CodecName ''json''))"
    by blast
  then show ?thesis using h1 h2 h3 h4 h5 by blast
qed

text \<open>
  The claim as stated (the instance wraps the value decoded by the codec table) fails
  on a Registry whose key serializer is \<^verbatim>\<open>avro\<close>: the key is decoded by the cached
  asynchronous serializer, and the codec table has no codec of that name.
\<close>

theorem loads_key_serializer_precedence_counterexample:
  "mt_serializer Plain = NoCodec
   \<and> fst (loads_key example_env (Registry_init 0 (CodecName ''avro'') (CodecName ''json''))
          (Some Plain) (PBytes ''k''))
       = Inr (PModel Plain (PDict [(PStr ''avro'', PBytes ''k'')]) None)
   \<and> loads example_env (CodecName ''avro'') (PBytes ''k'') = Inl (KeyError (CodecName ''avro''))"
  by (simp add: loads_key_def loads_key_try_def options_serializer_def Let_def py_or_def
      get_serializer_def override_classes_def new_instance_def store_instance_def
      Registry_init_def Plain_def example_env_def example_loads_def and_then_def reraise_as_def
      call_type_def)

section \<open>Round trip\<close>

text \<open>
  Claim C4, as the code has it. Let the model class \<open>T\<close> declare a serializer \<open>s\<close> that
  misses (so no asynchronous serializer is involved), let the self-encoding of
  \<^verbatim>\<open>T(x)\<close> be what the codec \<open>s\<close> encodes \<open>x\<close> to, some bytes \<open>b\<close>, and let the codec
  \<open>s\<close> decode what it encodes. Then \<^verbatim>\<open>dumps_value\<close> of \<^verbatim>\<open>T(x)\<close> is \<open>b\<close>, and
  \<^verbatim>\<open>loads_value\<close> of a message with the value \<open>b\<close> is \<^verbatim>\<open>T(x, req=request)\<close>.
\<close>

theorem value_round_trip:
  assumes "mt_serializer T = s" and "truthy s" and "lookup_miss st s"
      and "model_dumps env (PModel T x None) = dumps env s x"
      and "codec_roundtrip env s"
      and "dumps env s x = Inr (PBytes b)"
      and "model_new env T x (Some request) = None"
  shows "dumps_value env st topic (PModel T x None) arg = (Inr (PBytes b), st)
         \<and> loads_value env st (Some T) key \<lparr>msg_key = k, msg_value = PBytes b\<rparr> request
             = (Inr (PModel T x (Some request)), st)"
proof -
  have nm: "s = (if is_model (PModel T x None) then options_of (PModel T x None) else arg)"
    using assms(1) by simp
  have enc: "dumps_value env st topic (PModel T x None) arg = (Inr (PBytes b), st)"
    using dumps_value_miss[OF assms(2,3) nm, of env topic] assms(4,6) by simp
  have dec: "loads env s (PBytes b) = Inr x"
    using assms(5,6) by (simp add: codec_roundtrip_def)
  have nm': "s = py_or (mt_serializer T) (value_serializer (reg st))"
    using assms(1,2) by (simp add: py_or_def)
  have v: "msg_value \<lparr>msg_key = k, msg_value = PBytes b\<rparr> \<noteq> PNone" by simp
  have "loads_value env st (Some T) key \<lparr>msg_key = k, msg_value = PBytes b\<rparr> request
        = (Inr (PModel T x (Some request)), st)"
    using loads_value_miss[OF v nm' assms(3), of env key request] dec assms(7)
    by (simp add: and_then_Inr reraise_as_Inr call_type_ok)
  with enc show ?thesis by simp
qed

theorem value_round_trip_witness:
  "mt_serializer Json = CodecName ''json'' \<and> truthy (CodecName ''json'')
   \<and> lookup_miss (Registry_default 0) (CodecName ''json'')
   \<and> model_dumps example_env (PModel Json (PStr ''x'') None)
       = dumps example_env (CodecName ''json'') (PStr ''x'')
   \<and> codec_roundtrip example_env (CodecName ''json'')
   \<and> dumps example_env (CodecName ''json'') (PStr ''x'') = Inr (PBytes ''x'')
   \<and> model_new example_env Json (PStr ''x'') (Some (Request ''r'')) = None
   \<and> dumps_value example_env (Registry_default 0) ''topic1'' (PModel Json (PStr ''x'') None) NoCodec
       = (Inr (PBytes ''x''), Registry_default 0)
   \<and> loads_value example_env (Registry_default 0) (Some Json) PNone
         \<lparr>msg_key = PNone, msg_value = PBytes ''x''\<rparr> (Request ''r'')
       = (Inr (PModel Json (PStr ''x'') (Some (Request ''r''))), Registry_default 0)"
proof -
  have h1: "mt_serializer Json = CodecName ''json''" by (simp add: Json_def)
  have h2: "truthy (CodecName ''json'')" by simp
  have h3: "lookup_miss (Registry_default 0) (CodecName ''json'')"
    by (simp add: Registry_default_def lookup_miss_init override_classes_def)
  have h4: "model_dumps example_env (PModel Json (PStr ''x'') None)
       = dumps example_env (CodecName ''json'') (PStr ''x'')"
    by (simp add: example_env_def Json_def)
  have h5: "codec_roundtrip example_env (CodecName ''json'')" by (rule example_codec_roundtrip)
  have h6: "dumps example_env (CodecName ''json'') (PStr ''x'') = Inr (PBytes ''x'')"
    by (simp add: example_env_def example_dumps_def)
  have h7: "model_new example_env Json (PStr ''x'') (Some (Request ''r'')) = None"
    by (simp add: example_env_def)
  show ?thesis
    using h1 h2 h3 h4 h5 h6 h7
      value_round_trip[OF h1 h2 h3 h4 h5 h6 h7, of "''topic1''" NoCodec PNone PNone]
    by simp
qed

text \<open>
  The claim as stated fails for a model class that declares no serializer, although
  the codec \<^verbatim>\<open>json\<close> of the Registry's \<^verbatim>\<open>value_serializer\<close> decodes what it encodes:
  \<^verbatim>\<open>dumps_value\<close> returns the instance itself, and \<^verbatim>\<open>loads_value\<close> gives the instance to
  the codec \<^verbatim>\<open>json\<close>, which raises.
\<close>

theorem value_round_trip_counterexample:
  "mt_serializer Plain = NoCodec
   \<and> value_serializer (reg (Registry_default 0)) = CodecName ''json''
   \<and> lookup_miss (Registry_default 0) (CodecName ''json'')
   \<and> codec_roundtrip example_env (CodecName ''json'')
   \<and> fst (dumps_value example_env (Registry_default 0) ''topic1''
          (PModel Plain (PStr ''x'') None) NoCodec)
       = Inr (PModel Plain (PStr ''x'') None)
   \<and> fst (loads_value example_env (Registry_default 0) (Some Plain) PNone
          \<lparr>msg_key = PNone, msg_value = PModel Plain (PStr ''x'') None\<rparr> (Request ''r''))
       = Inl (ValueDecodeError (TypeError ''expected bytes''))
   \<and> fst (loads_value example_env (Registry_default 0) (Some Plain) PNone
          \<lparr>msg_key = PNone, msg_value = PModel Plain (PStr ''x'') None\<rparr> (Request ''r''))
       \<noteq> Inr (PModel Plain (PStr ''x'') (Some (Request ''r'')))"
proof -
  have a: "lookup_miss (Registry_default 0) (CodecName ''json'')"
    by (simp add: Registry_default_def lookup_miss_init override_classes_def)
  have b: "fst (dumps_value example_env (Registry_default 0) ''topic1''
          (PModel Plain (PStr ''x'') None) NoCodec)
       = Inr (PModel Plain (PStr ''x'') None)"
    by (simp add: dumps_value_def Plain_def)
  have c: "fst (loads_value example_env (Registry_default 0) (Some Plain) PNone
          \<lparr>msg_key = PNone, msg_value = PModel Plain (PStr ''x'') None\<rparr> (Request ''r''))
       = Inl (ValueDecodeError (TypeError ''expected bytes''))"
    by (simp add: loads_value_def loads_value_try_def options_serializer_def Let_def py_or_def
        get_serializer_def override_classes_def Registry_default_def Registry_init_def Plain_def
        example_env_def example_loads_def and_then_def reraise_as_def)
  show ?thesis using a b c example_codec_roundtrip
    by (simp add: Plain_def Registry_default_def Registry_init_def)
qed

section \<open>Lookup misses\<close>

text \<open>
  Claim C9, as the code has it. A name that misses makes \<^verbatim>\<open>_get_serializer\<close> raise
  \<^verbatim>\<open>KeyError(name)\<close>; when the import and the constructors of the serializer classes
  raise no \<^verbatim>\<open>KeyError\<close> of their own, \<^verbatim>\<open>_get_serializer\<close> raises \<^verbatim>\<open>KeyError\<close> for these
  names only. A resolution that raises leaves the Registry as it was. On a miss,
  \<^verbatim>\<open>loads_key\<close> and \<^verbatim>\<open>loads_value\<close> decode with the codec table, \<^verbatim>\<open>dumps_key\<close> and
  \<^verbatim>\<open>dumps_value\<close> encode a value that is not a model instance with the codec table, and
  they encode a model instance with its own \<^verbatim>\<open>dumps()\<close>.
\<close>

theorem name_resolution_miss:
  "(lookup_miss st name \<longrightarrow> get_serializer env st name = (Inl (KeyError name), st))
   \<and> (constructors_raise_no_KeyError env \<longrightarrow>
        raises_KeyError (fst (get_serializer env st name)) = lookup_miss st name)
   \<and> (fst (get_serializer env st name) = Inl e \<longrightarrow> snd (get_serializer env st name) = st)
   \<and> (lookup_miss st name \<and> key \<noteq> PNone
        \<and> name = py_or (mt_serializer T) (key_serializer (reg st)) \<longrightarrow>
        loads_key env st (Some T) key
        = (reraise_as KeyDecodeError
             (and_then (loads env name key) (\<lambda>obj. call_type env (Some T) obj None)), st))
   \<and> (lookup_miss st name \<and> msg_value message \<noteq> PNone
        \<and> name = py_or (mt_serializer T) (value_serializer (reg st)) \<longrightarrow>
        loads_value env st (Some T) key message request
        = (reraise_as ValueDecodeError
             (and_then (loads env name (msg_value message))
                (\<lambda>obj. call_type env (Some T) obj (Some request))), st))
   \<and> (lookup_miss st name \<and> truthy name \<and> \<not> is_model v \<longrightarrow>
        dumps_key env st topic v name = (dumps env name v, st)
        \<and> dumps_value env st topic v name = (dumps env name v, st))
   \<and> (lookup_miss st name \<and> truthy name \<and> name = mt_serializer T \<longrightarrow>
        dumps_key env st topic (PModel T d r) arg = (model_dumps env (PModel T d r), st)
        \<and> dumps_value env st topic (PModel T d r) arg = (model_dumps env (PModel T d r), st))"
proof -
  have a: "lookup_miss st name \<longrightarrow> get_serializer env st name = (Inl (KeyError name), st)"
    by (simp add: get_serializer_miss)
  have b: "constructors_raise_no_KeyError env \<longrightarrow>
        raises_KeyError (fst (get_serializer env st name)) = lookup_miss st name"
    using get_serializer_KeyError[of env st name] get_serializer_miss[of st name env]
    by (auto simp: raises_KeyError_def)
  have c: "fst (get_serializer env st name) = Inl e \<longrightarrow> snd (get_serializer env st name) = st"
    by (simp add: get_serializer_failed)
  have d: "lookup_miss st name \<and> key \<noteq> PNone
        \<and> name = py_or (mt_serializer T) (key_serializer (reg st)) \<longrightarrow>
        loads_key env st (Some T) key
        = (reraise_as KeyDecodeError
             (and_then (loads env name key) (\<lambda>obj. call_type env (Some T) obj None)), st)"
    using loads_key_miss[of key name T st env] by blast
  have e: "lookup_miss st name \<and> msg_value message \<noteq> PNone
        \<and> name = py_or (mt_serializer T) (value_serializer (reg st)) \<longrightarrow>
        loads_value env st (Some T) key message request
        = (reraise_as ValueDecodeError
             (and_then (loads env name (msg_value message))
                (\<lambda>obj. call_type env (Some T) obj (Some request))), st)"
    using loads_value_miss[of message name T st env key request] by blast
  have f: "lookup_miss st name \<and> truthy name \<and> \<not> is_model v \<longrightarrow>
        dumps_key env st topic v name = (dumps env name v, st)
        \<and> dumps_value env st topic v name = (dumps env name v, st)"
    using dumps_key_miss[of name st v name env topic] dumps_value_miss[of name st v name env topic]
    by simp
  have g: "lookup_miss st name \<and> truthy name \<and> name = mt_serializer T \<longrightarrow>
        dumps_key env st topic (PModel T d r) arg = (model_dumps env (PModel T d r), st)
        \<and> dumps_value env st topic (PModel T d r) arg = (model_dumps env (PModel T d r), st)"
  proof (intro impI, elim conjE)
    assume m: "lookup_miss st name" and t: "truthy name" and n: "name = mt_serializer T"
    have nm: "name = (if is_model (PModel T d r) then options_of (PModel T d r) else arg)"
      using n by simp
    show "dumps_key env st topic (PModel T d r) arg = (model_dumps env (PModel T d r), st)
        \<and> dumps_value env st topic (PModel T d r) arg = (model_dumps env (PModel T d r), st)"
      using dumps_key_miss[OF t m nm, of env topic] dumps_value_miss[OF t m nm, of env topic]
      by simp
  qed
  show ?thesis using a b c d e f g by blast
qed

theorem name_resolution_miss_witness:
  "lookup_miss (Registry_default 0) (CodecName ''json'')
   \<and> constructors_raise_no_KeyError example_env
   \<and> get_serializer example_env (Registry_default 0) (CodecName ''json'')
       = (Inl (KeyError (CodecName ''json'')), Registry_default 0)
   \<and> raises_KeyError (fst (get_serializer example_env (Registry_default 0) (CodecName ''json'')))
   \<and> truthy (CodecName ''json'') \<and> \<not> is_model (PStr ''x'')
   \<and> dumps_key example_env (Registry_default 0) ''topic1'' (PStr ''x'') (CodecName ''json'')
       = (Inr (PBytes ''x''), Registry_default 0)"
proof -
  have h1: "lookup_miss (Registry_default 0) (CodecName ''json'')"
    by (simp add: Registry_default_def lookup_miss_init override_classes_def)
  have h2: "constructors_raise_no_KeyError example_env" by (rule example_constructors)
  have h3: "dumps example_env (CodecName ''json'') (PStr ''x'') = Inr (PBytes ''x'')"
    by (simp add: example_env_def example_dumps_def)
  note inst = name_resolution_miss[of "Registry_default 0" "CodecName ''json''" example_env
      "KeyError (CodecName ''json'')" "PBytes ''k''" Json
      "\<lparr>msg_key = PNone, msg_value = PBytes ''v''\<rparr>" "Request ''r''" "PStr ''x''"
      "''topic1''" "PStr ''x''" None NoCodec]
  from inst h1 have a: "get_serializer example_env (Registry_default 0) (CodecName ''json'')
       = (Inl (KeyError (CodecName ''json'')), Registry_default 0)"
    by blast
  from inst h1 h2 have b:
    "raises_KeyError (fst (get_serializer example_env (Registry_default 0) (CodecName ''json'')))"
    by blast
  have t: "truthy (CodecName ''json'') \<and> \<not> is_model (PStr ''x'')" by simp
  from inst h1 t have c:
    "dumps_key example_env (Registry_default 0) ''topic1'' (PStr ''x'') (CodecName ''json'')
       = (dumps example_env (CodecName ''json'') (PStr ''x''), Registry_default 0)"
    by blast
  show ?thesis using h1 h2 a b t c h3 by simp
qed

text \<open>
  The claim as stated (on a miss the caller falls back to the codec table) fails for
  \<^verbatim>\<open>dumps_key\<close> on a model instance: the result is the self-encoding of the instance,
  which is neither what the codec table returns for the instance nor for its payload.
\<close>

theorem name_resolution_miss_counterexample:
  "mt_serializer Json = CodecName ''json''
   \<and> lookup_miss (Registry_default 0) (CodecName ''json'')
   \<and> dumps_key self_encoding_env (Registry_default 0) ''topic1''
         (PModel Json (PStr ''x'') None) NoCodec
       = (Inr (PBytes ''self-encoded''), Registry_default 0)
   \<and> dumps self_encoding_env (CodecName ''json'') (PModel Json (PStr ''x'') None)
       = Inl (TypeError ''not serializable'')
   \<and> dumps self_encoding_env (CodecName ''json'') (PStr ''x'') = Inr (PBytes ''x'')"
proof -
  have h1: "lookup_miss (Registry_default 0) (CodecName ''json'')"
    by (simp add: Registry_default_def lookup_miss_init override_classes_def)
  have t: "truthy (CodecName ''json'')" by simp
  have nm: "CodecName ''json''
            = (if is_model (PModel Json (PStr ''x'') None)
               then options_of (PModel Json (PStr ''x'') None) else NoCodec)"
    by (simp add: Json_def)
  have k: "dumps_key self_encoding_env (Registry_default 0) ''topic1''
         (PModel Json (PStr ''x'') None) NoCodec
       = (model_dumps self_encoding_env (PModel Json (PStr ''x'') None), Registry_default 0)"
    using dumps_key_miss[OF t h1 nm, of self_encoding_env "''topic1''"] by simp
  show ?thesis using h1 k
    by (simp add: Json_def self_encoding_env_def example_env_def example_dumps_def)
qed

end
